theory Spec2Isabelle
  imports Main
begin

section \<open>The data model of handler.go\<close>

text \<open>
  \<^verbatim>\<open>slog.Level\<close> is a Go \<^verbatim>\<open>int\<close>; the handler only compares levels, so unbounded
  integers model it. The four named levels are the constants of \<^verbatim>\<open>log/slog\<close>.
\<close>

type_synonym Level = int

definition LevelDebug :: Level where
  "LevelDebug = - 4"

definition LevelInfo :: Level where
  "LevelInfo = 0"

definition LevelWarn :: Level where
  "LevelWarn = 4"

definition LevelError :: Level where
  "LevelError = 8"

text \<open>\<^verbatim>\<open>time.Duration\<close> counts nanoseconds.\<close>

type_synonym Duration = int

definition Second :: Duration where
  "Second = 1000000000"

text \<open>
  A \<^verbatim>\<open>slog.Record\<close> as the handler reads it: level, message, time and the attributes
  attached at the log call, in order. An attribute is its key and the text of its value.
\<close>

type_synonym Attr = "string \<times> string"

record Record =
  Time :: int
  Message :: string
  Level :: Level
  Attrs :: "Attr list"

text \<open>
  The embed types and \<^verbatim>\<open>LevelColors\<close> are declared outside handler.go, in a file of the
  package that is not available. Their fields are taken from the composite literals of the
  example program (\<^verbatim>\<open>Title\<close>, \<^verbatim>\<open>Description\<close>, \<^verbatim>\<open>Color\<close>, \<^verbatim>\<open>Timestamp\<close>, \<^verbatim>\<open>Fields\<close>,
  \<^verbatim>\<open>Footer\<close>; \<^verbatim>\<open>Name\<close>, \<^verbatim>\<open>Value\<close>, \<^verbatim>\<open>Inline\<close>; \<^verbatim>\<open>Text\<close>) and from the wire format of the
  specification. \<^verbatim>\<open>Footer\<close> is a pointer, \<open>None\<close> being nil. A Go map read at an absent key
  gives the zero value; the lookup is written out in \<open>DefaultEmbed\<close>.
\<close>

type_synonym LevelColors = "string \<rightharpoonup> int"

record EmbedFooter =
  Text :: string

record EmbedField =
  Name :: string
  Value :: string
  Inline :: bool

record DiscordEmbed =
  Title :: string
  Description :: string
  Color :: int
  Timestamp :: string
  Fields :: "EmbedField list"
  Footer :: "EmbedFooter option"

text \<open>
  \<^verbatim>\<open>type CustomEmbed func(r slog.Record, levelColors LevelColors) *DiscordEmbed\<close>: the
  result is a pointer, so \<open>None\<close> is the nil pointer. A custom function is taken to
  return and to have no effect of its own on the handler.
\<close>

type_synonym CustomEmbed = "Record \<Rightarrow> LevelColors \<Rightarrow> DiscordEmbed option"

record Payload =
  Username :: string
  AvatarURL :: string
  Embeds :: "DiscordEmbed list"

text \<open>
  \<^verbatim>\<open>DiscordWebhookConfig\<close>. The fields \<^verbatim>\<open>Username\<close> and \<^verbatim>\<open>AvatarURL\<close> carry the suffix
  \<open>_cfg\<close> to keep them apart from those of \<open>Payload\<close>. \<^verbatim>\<open>CustomEmbed\<close> is a function
  value that may be nil.
\<close>

record DiscordWebhookConfig =
  MinLevel :: Level
  Timeout :: Duration
  WebhookURL :: string
  Username_cfg :: string
  AvatarURL_cfg :: string
  LevelColors :: LevelColors
  CustomEmbed :: "CustomEmbed option"

record DiscordHandler =
  config :: DiscordWebhookConfig

definition NewDiscordHandler :: "DiscordWebhookConfig \<Rightarrow> DiscordHandler" where
  "NewDiscordHandler cfg = \<lparr>config = cfg\<rparr>"

section \<open>Errors\<close>

text \<open>
  A Go \<^verbatim>\<open>error\<close> value. \<open>External\<close> is an error made by a library (\<^verbatim>\<open>json.Marshal\<close>,
  \<^verbatim>\<open>http.NewRequest\<close>, \<^verbatim>\<open>client.Do\<close>) with its text. \<open>Errorf_w p e\<close> is
  \<^verbatim>\<open>fmt.Errorf(p + "%w", e)\<close> and \<open>Errorf_d p n\<close> is \<^verbatim>\<open>fmt.Errorf(p + "%d", n)\<close>.
\<close>

datatype error =
  External string
| Errorf_w string error
| Errorf_d string int

definition digit_char :: "nat \<Rightarrow> char" where
  "digit_char d = char_of (48 + d)"

function nat_decimal :: "nat \<Rightarrow> string" where
  "nat_decimal n =
     (if n < 10 then [digit_char n] else nat_decimal (n div 10) @ [digit_char (n mod 10)])"
  by pat_completeness auto
termination
  by (relation "measure id") auto

declare nat_decimal.simps [simp del]

text \<open>The verb \<^verbatim>\<open>%d\<close> of package \<^verbatim>\<open>fmt\<close> on an integer.\<close>

definition format_d :: "int \<Rightarrow> string" where
  "format_d i = (if i < 0 then CHR ''-'' # nat_decimal (nat (- i)) else nat_decimal (nat i))"

text \<open>The method \<^verbatim>\<open>Error()\<close>: the text of an error.\<close>

fun Error :: "error \<Rightarrow> string" where
  "Error (External s) = s"
| "Error (Errorf_w p e) = p @ Error e"
| "Error (Errorf_d p n) = p @ format_d n"

text \<open>
  A call either returns or panics. The only panic of \<^verbatim>\<open>Handle\<close> that is modelled is the
  dereference \<^verbatim>\<open>*embed\<close> of a nil pointer.
\<close>

datatype 'a completion = Panics | Returns 'a

section \<open>The outside world\<close>

record Request =
  Method :: string
  URL :: string
  Header :: "string \<rightharpoonup> string"
  Body :: string

record Response =
  StatusCode :: int
  RespBody :: string

text \<open>
  What the code calls and does not define is a parameter: the name of a level
  (\<^verbatim>\<open>Level.String\<close>), the clock and its RFC3339 formatting, \<^verbatim>\<open>json.Marshal\<close>, the URL
  parsing of \<^verbatim>\<open>http.NewRequest\<close> and the HTTP exchange \<^verbatim>\<open>client.Do\<close>, which is given the
  request and the timeout of the client that runs it.
\<close>

record env =
  Level_String :: "Level \<Rightarrow> string"
  time_Now :: int
  Format_RFC3339 :: "int \<Rightarrow> string"
  json_Marshal :: "Payload \<Rightarrow> error + string"
  url_Parse :: "string \<Rightarrow> error + string"
  client_Do :: "Request \<Rightarrow> Duration \<Rightarrow> error + Response"

definition http_NewRequest :: "env \<Rightarrow> string \<Rightarrow> string \<Rightarrow> string \<Rightarrow> error + Request" where
  "http_NewRequest e method url body =
     (case url_Parse e url of
        Inl err \<Rightarrow> Inl err
      | Inr u \<Rightarrow> Inr \<lparr>Method = method, URL = u, Header = Map.empty, Body = body\<rparr>)"

definition Header_Set :: "Request \<Rightarrow> string \<Rightarrow> string \<Rightarrow> Request" where
  "Header_Set req k v = req\<lparr>Header := (Header req)(k \<mapsto> v)\<rparr>"

text \<open>
  The calls a run makes, in order: which embed builder ran, the payload and timeout given
  to \<^verbatim>\<open>sendToDiscord\<close>, the request and client timeout of \<^verbatim>\<open>client.Do\<close>, and the deferred
  \<^verbatim>\<open>resp.Body.Close()\<close>. The body of a response is never read: there is no event for it.
\<close>

datatype event =
  Call_CustomEmbed Record
| Call_DefaultEmbed Record
| Call_sendToDiscord Payload Duration
| Call_client_Do Request Duration
| Call_Body_Close

section \<open>The operations of handler.go\<close>

text \<open>
  The receiver \<open>h\<close> is a pointer in the source. Every method takes the handler object and
  returns it as it is after the call.
\<close>

text \<open>
  Modelled from the spec: \<^verbatim>\<open>DefaultEmbed\<close> is called by \<^verbatim>\<open>Handle\<close> and defined outside
  handler.go, in a file of the package that is not available. The specification gives its
  policy: title = severity level name; description = message text; color =
  \<^verbatim>\<open>levelColors[level]\<close> (zero value if key absent); timestamp = current time in RFC3339
  form; fields = one entry per attribute key/value pair, each marked non-inline; no footer.
  It returns a pointer to a fresh embed.
\<close>

definition DefaultEmbed :: "env \<Rightarrow> Record \<Rightarrow> LevelColors \<Rightarrow> DiscordEmbed option" where
  "DefaultEmbed e r levelColors =
     Some \<lparr>Title = Level_String e (Level r),
           Description = Message r,
           Color = (case levelColors (Level_String e (Level r)) of None \<Rightarrow> 0 | Some c \<Rightarrow> c),
           Timestamp = Format_RFC3339 e (time_Now e),
           Fields = map (\<lambda>a. \<lparr>Name = fst a, Value = snd a, Inline = False\<rparr>) (Attrs r),
           Footer = None\<rparr>"

definition Enabled :: "DiscordHandler \<Rightarrow> Level \<Rightarrow> bool \<times> DiscordHandler" where
  "Enabled h lvl =
     (let h1 = (if MinLevel (config h) = 0
                then h\<lparr>config := (config h)\<lparr>MinLevel := LevelDebug\<rparr>\<rparr>
                else h)
      in (lvl \<ge> MinLevel (config h1), h1))"

definition sendToDiscord ::
  "env \<Rightarrow> DiscordHandler \<Rightarrow> Payload \<Rightarrow> Duration \<Rightarrow> error option \<times> DiscordHandler \<times> event list" where
  "sendToDiscord e h payload timeOut =
     (case json_Marshal e payload of
        Inl err \<Rightarrow> (Some (Errorf_w ''failed to marshal JSON: '' err), h, [])
      | Inr data \<Rightarrow>
          (case http_NewRequest e ''POST'' (WebhookURL (config h)) data of
             Inl err \<Rightarrow> (Some (Errorf_w ''failed to create request: '' err), h, [])
           | Inr req \<Rightarrow>
               (let timeOut1 = (if Timeout (config h) = 0 then 5 * Second else timeOut);
                    req1 = Header_Set req ''Content-Type'' ''application/json''
                in case client_Do e req1 timeOut1 of
                     Inl err \<Rightarrow>
                       (Some (Errorf_w ''request failed: '' err), h,
                        [Call_client_Do req1 timeOut1])
                   | Inr resp \<Rightarrow>
                       (if StatusCode resp \<ge> 400
                        then (Some (Errorf_d ''discord returned non-OK status: '' (StatusCode resp)),
                              h, [Call_client_Do req1 timeOut1, Call_Body_Close])
                        else (None, h, [Call_client_Do req1 timeOut1, Call_Body_Close])))))"

definition Handle ::
  "env \<Rightarrow> DiscordHandler \<Rightarrow> Record \<Rightarrow> error option completion \<times> DiscordHandler \<times> event list" where
  "Handle e h r =
     (let (embed, built) =
            (case CustomEmbed (config h) of
               Some f \<Rightarrow> (f r (LevelColors (config h)), Call_CustomEmbed r)
             | None \<Rightarrow> (DefaultEmbed e r (LevelColors (config h)), Call_DefaultEmbed r))
      in case embed of
           None \<Rightarrow> (Panics, h, [built])
         | Some em \<Rightarrow>
             (let payload = \<lparr>Username = Username_cfg (config h),
                             AvatarURL = AvatarURL_cfg (config h),
                             Embeds = [em]\<rparr>;
                  (res, h1, evs) = sendToDiscord e h payload (Timeout (config h));
                  trace = built # Call_sendToDiscord payload (Timeout (config h)) # evs
              in case res of
                   Some err \<Rightarrow> (Returns (Some (Errorf_w ''failed to send log to Discord: '' err)), h1, trace)
                 | None \<Rightarrow> (Returns None, h1, trace)))"

definition WithAttrs :: "DiscordHandler \<Rightarrow> Attr list \<Rightarrow> DiscordHandler" where
  "WithAttrs h attrs = h"

definition WithGroup :: "DiscordHandler \<Rightarrow> string \<Rightarrow> DiscordHandler" where
  "WithGroup h name = h"

section \<open>The caller's gate\<close>


section \<open>Reading a run\<close>

text \<open>The parts of a result triple: what was returned, the handler afterwards, the calls.\<close>

definition result_of :: "'a \<times> DiscordHandler \<times> event list \<Rightarrow> 'a" where
  "result_of x = fst x"

definition handler_after :: "'a \<times> DiscordHandler \<times> event list \<Rightarrow> DiscordHandler" where
  "handler_after x = fst (snd x)"

definition calls_of :: "'a \<times> DiscordHandler \<times> event list \<Rightarrow> event list" where
  "calls_of x = snd (snd x)"

text \<open>The payloads handed to \<^verbatim>\<open>sendToDiscord\<close>, and the timeouts of the clients that ran a request.\<close>

fun payloads :: "event list \<Rightarrow> Payload list" where
  "payloads [] = []"
| "payloads (Call_sendToDiscord p t # evs) = p # payloads evs"
| "payloads (ev # evs) = payloads evs"


fun default_builds :: "event list \<Rightarrow> Record list" where
  "default_builds [] = []"
| "default_builds (Call_DefaultEmbed r # evs) = r # default_builds evs"
| "default_builds (ev # evs) = default_builds evs"


text \<open>
  A sequence of augmentation calls on a handler: each call is made on the handler the
  previous one returned.
\<close>

datatype augmentation = Aug_Attrs "Attr list" | Aug_Group string

fun augment :: "DiscordHandler \<Rightarrow> augmentation list \<Rightarrow> DiscordHandler" where
  "augment h [] = h"
| "augment h (Aug_Attrs attrs # augs) = augment (WithAttrs h attrs) augs"
| "augment h (Aug_Group name # augs) = augment (WithGroup h name) augs"

section \<open>Concrete inputs\<close>

text \<open>
  The method \<^verbatim>\<open>String\<close> of \<^verbatim>\<open>slog.Level\<close> in Go's standard library, for the example
  environment: the name of the nearest named level below, and the offset with its sign.
\<close>

definition level_str :: "string \<Rightarrow> int \<Rightarrow> string" where
  "level_str base val =
     (if val = 0 then base
      else if val > 0 then base @ CHR ''+'' # format_d val
      else base @ format_d val)"

definition slog_Level_String :: "Level \<Rightarrow> string" where
  "slog_Level_String l =
     (if l < LevelInfo then level_str ''DEBUG'' (l - LevelDebug)
      else if l < LevelWarn then level_str ''INFO'' (l - LevelInfo)
      else if l < LevelError then level_str ''WARN'' (l - LevelWarn)
      else level_str ''ERROR'' (l - LevelError))"

text \<open>
  A mock endpoint that answers every request with the given status; every payload
  serialises and every URL parses.
\<close>

definition mock_env :: "int \<Rightarrow> env" where
  "mock_env status =
     \<lparr>Level_String = slog_Level_String,
      time_Now = 0,
      Format_RFC3339 = (\<lambda>t. ''1970-01-01T00:00:00Z''),
      json_Marshal = (\<lambda>p. Inr ''{}''),
      url_Parse = (\<lambda>u. Inr u),
      client_Do = (\<lambda>req t. Inr \<lparr>StatusCode = status, RespBody = ''body''\<rparr>)\<rparr>"

text \<open>The configuration of the first example program: only the URL is set.\<close>

definition url_only_config :: DiscordWebhookConfig where
  "url_only_config =
     \<lparr>MinLevel = 0, Timeout = 0, WebhookURL = ''https://discord.invalid/hook'',
      Username_cfg = [], AvatarURL_cfg = [], LevelColors = Map.empty, CustomEmbed = None\<rparr>"

definition warn_colors :: LevelColors where
  "warn_colors = [''WARN'' \<mapsto> 0xf1c40f]"

definition disk_low :: Record where
  "disk_low = \<lparr>Time = 0, Message = ''disk low'', Level = LevelWarn, Attrs = [(''pct'', ''92'')]\<rparr>"

definition hello_info :: Record where
  "hello_info =
     \<lparr>Time = 0, Message = ''Hello from Info'', Level = LevelInfo, Attrs = [(''version'', ''1.2.3'')]\<rparr>"


definition nil_embed :: CustomEmbed where
  "nil_embed r lc = None"

definition footer_embed :: CustomEmbed where
  "footer_embed r lc =
     Some \<lparr>Title = ''Custom title'', Description = Message r, Color = 7,
           Timestamp = ''2024-05-01T12:00:00Z'',
           Fields = [\<lparr>Name = ''Custom Field'', Value = ''Custom Value'', Inline = True\<rparr>],
           Footer = Some \<lparr>Text = ''Custom Footer''\<rparr>\<rparr>"

section \<open>Auxiliary facts\<close>


lemma result_of_triple [simp]: "result_of (x, h, evs) = x"
  by (simp add: result_of_def)

lemma handler_after_triple [simp]: "handler_after (x, h, evs) = h"
  by (simp add: handler_after_def)

lemma calls_of_triple [simp]: "calls_of (x, h, evs) = evs"
  by (simp add: calls_of_def)

lemma Enabled_handler:
  "snd (Enabled h lvl) =
     (if MinLevel (config h) = 0 then h\<lparr>config := (config h)\<lparr>MinLevel := LevelDebug\<rparr>\<rparr> else h)"
  by (simp add: Enabled_def Let_def)

lemma sendToDiscord_handler: "handler_after (sendToDiscord e h p t) = h"
  by (simp add: sendToDiscord_def Let_def split: sum.splits)


lemma augment_same: "augment h augs = h"
  by (induction h augs rule: augment.induct) (simp_all add: WithAttrs_def WithGroup_def)

lemma payloads_sendToDiscord: "payloads (calls_of (sendToDiscord e h p t)) = []"
  by (simp add: sendToDiscord_def Let_def split: sum.splits)

lemma default_builds_sendToDiscord: "default_builds (calls_of (sendToDiscord e h p t)) = []"
  by (simp add: sendToDiscord_def Let_def split: sum.splits)

lemma Handle_custom:
  assumes "CustomEmbed (config h) = Some f"
  shows "Handle e h r =
    (case f r (LevelColors (config h)) of
       None \<Rightarrow> (Panics, h, [Call_CustomEmbed r])
     | Some em \<Rightarrow>
         (let payload = \<lparr>Username = Username_cfg (config h), AvatarURL = AvatarURL_cfg (config h),
                         Embeds = [em]\<rparr>;
              sent = sendToDiscord e h payload (Timeout (config h))
          in (Returns (map_option (Errorf_w ''failed to send log to Discord: '') (result_of sent)),
              handler_after sent,
              Call_CustomEmbed r # Call_sendToDiscord payload (Timeout (config h)) # calls_of sent)))"
  using assms
  by (simp add: Handle_def Let_def split: option.splits prod.splits)

lemma Handle_default:
  assumes "CustomEmbed (config h) = None"
  shows "Handle e h r =
    (case DefaultEmbed e r (LevelColors (config h)) of
       None \<Rightarrow> (Panics, h, [Call_DefaultEmbed r])
     | Some em \<Rightarrow>
         (let payload = \<lparr>Username = Username_cfg (config h), AvatarURL = AvatarURL_cfg (config h),
                         Embeds = [em]\<rparr>;
              sent = sendToDiscord e h payload (Timeout (config h))
          in (Returns (map_option (Errorf_w ''failed to send log to Discord: '') (result_of sent)),
              handler_after sent,
              Call_DefaultEmbed r # Call_sendToDiscord payload (Timeout (config h)) # calls_of sent)))"
  using assms
  by (simp add: Handle_def Let_def split: option.splits prod.splits)

lemma Handle_handler: "handler_after (Handle e h r) = h"
proof (cases "CustomEmbed (config h)")
  case None
  show ?thesis
    unfolding Handle_default [OF None]
    by (simp add: Let_def sendToDiscord_handler split: option.splits)
next
  case (Some f)
  show ?thesis
    unfolding Handle_custom [OF Some]
    by (simp add: Let_def sendToDiscord_handler split: option.splits)
qed

lemma format_d_429: "format_d 429 = ''429''"
  by code_simp

lemma slog_Level_String_Warn: "slog_Level_String LevelWarn = ''WARN''"
  by (simp add: slog_Level_String_def level_str_def LevelWarn_def LevelInfo_def LevelError_def)

lemma slog_Level_String_Info: "slog_Level_String LevelInfo = ''INFO''"
  by (simp add: slog_Level_String_def level_str_def LevelWarn_def LevelInfo_def LevelError_def)






lemma fields_DefaultEmbed:
  "DefaultEmbed e r lc = Some em \<Longrightarrow>
     map Name (Fields em) = map fst (Attrs r) \<and> map Value (Fields em) = map snd (Attrs r)"
  by (auto simp add: DefaultEmbed_def)








section \<open>The claims\<close>

subsection \<open>C1: the default embed builder\<close>

text \<open>
  C1. For every record, the default builder returns an embed whose title is the name of the
  level, whose description is the message, whose color is the entry of the color table at
  the level name and 0 when the table has no such key, whose timestamp is the current time
  in RFC3339 form, whose fields are one entry per attribute of the record, in order, with
  the attribute's key and value and \<^verbatim>\<open>Inline = false\<close>, and which has no footer. When no
  custom builder is configured, \<^verbatim>\<open>Handle\<close> runs the default builder on the record and the
  configured color table and puts that embed into the payload.
\<close>

theorem DefaultEmbed_policy:
  "\<exists>em. DefaultEmbed e r lc = Some em
     \<and> Title em = Level_String e (Level r)
     \<and> Description em = Message r
     \<and> (\<forall>c. lc (Level_String e (Level r)) = Some c \<longrightarrow> Color em = c)
     \<and> (lc (Level_String e (Level r)) = None \<longrightarrow> Color em = 0)
     \<and> Timestamp em = Format_RFC3339 e (time_Now e)
     \<and> length (Fields em) = length (Attrs r)
     \<and> (\<forall>i < length (Attrs r).
           Fields em ! i = \<lparr>Name = fst (Attrs r ! i), Value = snd (Attrs r ! i), Inline = False\<rparr>)
     \<and> Footer em = None
     \<and> (CustomEmbed (config h) = None \<and> LevelColors (config h) = lc \<longrightarrow>
           default_builds (calls_of (Handle e h r)) = [r]
         \<and> payloads (calls_of (Handle e h r)) =
             [\<lparr>Username = Username_cfg (config h), AvatarURL = AvatarURL_cfg (config h),
               Embeds = [em]\<rparr>])"
proof -
  define em where "em = \<lparr>Title = Level_String e (Level r),
           Description = Message r,
           Color = (case lc (Level_String e (Level r)) of None \<Rightarrow> 0 | Some c \<Rightarrow> c),
           Timestamp = Format_RFC3339 e (time_Now e),
           Fields = map (\<lambda>a. \<lparr>Name = fst a, Value = snd a, Inline = False\<rparr>) (Attrs r),
           Footer = None\<rparr>"
  have built: "DefaultEmbed e r lc = Some em"
    by (simp add: DefaultEmbed_def em_def)
  have handled: "default_builds (calls_of (Handle e h r)) = [r]
         \<and> payloads (calls_of (Handle e h r)) =
             [\<lparr>Username = Username_cfg (config h), AvatarURL = AvatarURL_cfg (config h),
               Embeds = [em]\<rparr>]"
    if "CustomEmbed (config h) = None" and "LevelColors (config h) = lc"
    unfolding Handle_default [OF that(1)]
    using built that(2)
    by (simp add: Let_def payloads_sendToDiscord default_builds_sendToDiscord)
  show ?thesis
  proof (intro exI [of _ em] conjI)
    show "DefaultEmbed e r lc = Some em"
      by (rule built)
    show "CustomEmbed (config h) = None \<and> LevelColors (config h) = lc \<longrightarrow>
           default_builds (calls_of (Handle e h r)) = [r]
         \<and> payloads (calls_of (Handle e h r)) =
             [\<lparr>Username = Username_cfg (config h), AvatarURL = AvatarURL_cfg (config h),
               Embeds = [em]\<rparr>]"
      using handled by simp
  qed (simp_all add: em_def)
qed

theorem DefaultEmbed_policy_witness:
  "\<exists>em. payloads (calls_of (Handle (mock_env 204)
            (NewDiscordHandler (url_only_config\<lparr>LevelColors := warn_colors\<rparr>)) disk_low)) =
          [\<lparr>Username = [], AvatarURL = [], Embeds = [em]\<rparr>]
     \<and> Title em = ''WARN''
     \<and> Description em = ''disk low''
     \<and> Color em = 0xf1c40f
     \<and> Timestamp em = ''1970-01-01T00:00:00Z''
     \<and> length (Fields em) = 1
     \<and> Fields em ! 0 = \<lparr>Name = ''pct'', Value = ''92'', Inline = False\<rparr>
     \<and> Footer em = None
     \<and> (\<exists>em'. DefaultEmbed (mock_env 204) hello_info warn_colors = Some em'
            \<and> Title em' = ''INFO'' \<and> Color em' = 0)"
proof -
  let ?h = "NewDiscordHandler (url_only_config\<lparr>LevelColors := warn_colors\<rparr>)"
  have name: "Level_String (mock_env 204) (Level disk_low) = ''WARN''"
    by (simp add: mock_env_def disk_low_def slog_Level_String_Warn)
  have cfg: "CustomEmbed (config ?h) = None \<and> LevelColors (config ?h) = warn_colors"
    by (simp add: NewDiscordHandler_def url_only_config_def)
  from DefaultEmbed_policy [of "mock_env 204" disk_low warn_colors ?h]
  obtain em where em:
    "Title em = Level_String (mock_env 204) (Level disk_low)"
    "Description em = Message disk_low"
    "\<forall>c. warn_colors (Level_String (mock_env 204) (Level disk_low)) = Some c \<longrightarrow> Color em = c"
    "Timestamp em = Format_RFC3339 (mock_env 204) (time_Now (mock_env 204))"
    "length (Fields em) = length (Attrs disk_low)"
    "\<forall>i < length (Attrs disk_low).
        Fields em ! i = \<lparr>Name = fst (Attrs disk_low ! i), Value = snd (Attrs disk_low ! i), Inline = False\<rparr>"
    "Footer em = None"
    "CustomEmbed (config ?h) = None \<and> LevelColors (config ?h) = warn_colors \<longrightarrow>
       default_builds (calls_of (Handle (mock_env 204) ?h disk_low)) = [disk_low]
       \<and> payloads (calls_of (Handle (mock_env 204) ?h disk_low)) =
           [\<lparr>Username = Username_cfg (config ?h), AvatarURL = AvatarURL_cfg (config ?h),
             Embeds = [em]\<rparr>]"
    by blast
  have f1: "payloads (calls_of (Handle (mock_env 204) ?h disk_low)) =
          [\<lparr>Username = [], AvatarURL = [], Embeds = [em]\<rparr>]"
    using em(8) cfg by (simp add: NewDiscordHandler_def url_only_config_def)
  have f2: "Title em = ''WARN''"
    using em(1) name by simp
  have f3: "Description em = ''disk low''"
    using em(2) by (simp add: disk_low_def)
  have f4: "Color em = 0xf1c40f"
    using em(3) name by (simp add: warn_colors_def)
  have f5: "Timestamp em = ''1970-01-01T00:00:00Z''"
    using em(4) by (simp add: mock_env_def)
  have f6: "length (Fields em) = 1"
    using em(5) by (simp add: disk_low_def)
  have f7: "Fields em ! 0 = \<lparr>Name = ''pct'', Value = ''92'', Inline = False\<rparr>"
    using em(6) by (simp add: disk_low_def)
  have f8: "\<exists>em'. DefaultEmbed (mock_env 204) hello_info warn_colors = Some em'
            \<and> Title em' = ''INFO'' \<and> Color em' = 0"
  proof -
    have info: "Level_String (mock_env 204) (Level hello_info) = ''INFO''"
      by (simp add: mock_env_def hello_info_def slog_Level_String_Info)
    have absent: "warn_colors (Level_String (mock_env 204) (Level hello_info)) = None"
      unfolding info by (simp add: warn_colors_def)
    from DefaultEmbed_policy [of "mock_env 204" hello_info warn_colors ?h]
    obtain em' where built: "DefaultEmbed (mock_env 204) hello_info warn_colors = Some em'"
      and title: "Title em' = Level_String (mock_env 204) (Level hello_info)"
      and color: "warn_colors (Level_String (mock_env 204) (Level hello_info)) = None \<longrightarrow> Color em' = 0"
      by (elim exE conjE)
    from title info have "Title em' = ''INFO''"
      by simp
    moreover from color absent have "Color em' = 0"
      by simp
    ultimately show ?thesis
      using built by (intro exI [of _ em'] conjI)
  qed
  show ?thesis
    by (rule exI [of _ em]) (intro conjI; fact f1 f2 f3 f4 f5 f6 f7 f8 em(7))
qed

subsection \<open>C2: the status of the response\<close>

text \<open>
  C2. When the delivery operation receives a response (the payload serialised, the request
  was built and \<^verbatim>\<open>client.Do\<close> returned a response): a status code of 400 or more makes it
  return an error whose text ends with the status code in decimal, a status code below 400
  makes it return nil. The body of the response plays no part: the result is the same for
  any other body, and the only calls made are \<^verbatim>\<open>client.Do\<close> and the deferred close.
\<close>

theorem sendToDiscord_status:
  assumes marshal: "json_Marshal e payload = Inr data"
    and request: "http_NewRequest e ''POST'' (WebhookURL (config h)) data = Inr req"
    and response: "client_Do e (Header_Set req ''Content-Type'' ''application/json'')
                     (if Timeout (config h) = 0 then 5 * Second else t) = Inr resp"
  shows "(StatusCode resp \<ge> 400 \<longrightarrow>
            (\<exists>err. result_of (sendToDiscord e h payload t) = Some err
               \<and> Error err = ''discord returned non-OK status: '' @ format_d (StatusCode resp)))
       \<and> (StatusCode resp < 400 \<longrightarrow> result_of (sendToDiscord e h payload t) = None)
       \<and> result_of (sendToDiscord (e\<lparr>client_Do := \<lambda>rq tm. Inr (resp\<lparr>RespBody := b\<rparr>)\<rparr>) h payload t)
           = result_of (sendToDiscord e h payload t)
       \<and> calls_of (sendToDiscord e h payload t) =
           [Call_client_Do (Header_Set req ''Content-Type'' ''application/json'')
              (if Timeout (config h) = 0 then 5 * Second else t),
            Call_Body_Close]"
proof -
  let ?e' = "e\<lparr>client_Do := \<lambda>rq tm. Inr (resp\<lparr>RespBody := b\<rparr>)\<rparr>"
  have request': "http_NewRequest ?e' ''POST'' (WebhookURL (config h)) data = Inr req"
    using request by (simp add: http_NewRequest_def)
  have run: "sendToDiscord e h payload t =
      (if StatusCode resp \<ge> 400
       then Some (Errorf_d ''discord returned non-OK status: '' (StatusCode resp)) else None,
       h,
       [Call_client_Do (Header_Set req ''Content-Type'' ''application/json'')
          (if Timeout (config h) = 0 then 5 * Second else t), Call_Body_Close])"
    using marshal request response by (simp add: sendToDiscord_def Let_def)
  have run': "result_of (sendToDiscord ?e' h payload t) =
      (if StatusCode resp \<ge> 400
       then Some (Errorf_d ''discord returned non-OK status: '' (StatusCode resp)) else None)"
    using marshal request' by (simp add: sendToDiscord_def Let_def)
  show ?thesis
    unfolding run run' by simp
qed

theorem sendToDiscord_status_witness:
  "(\<exists>err. result_of (sendToDiscord (mock_env 429) (NewDiscordHandler url_only_config)
              \<lparr>Username = [], AvatarURL = [], Embeds = []\<rparr> 0) = Some err
      \<and> Error err = ''discord returned non-OK status: 429'')
   \<and> result_of (sendToDiscord (mock_env 204) (NewDiscordHandler url_only_config)
              \<lparr>Username = [], AvatarURL = [], Embeds = []\<rparr> 0) = None
   \<and> result_of (Handle (mock_env 204) (NewDiscordHandler url_only_config) disk_low) = Returns None
   \<and> (\<exists>err. result_of (Handle (mock_env 429) (NewDiscordHandler url_only_config) disk_low)
              = Returns (Some err)
      \<and> Error err = ''failed to send log to Discord: discord returned non-OK status: 429'')"
proof -
  let ?h = "NewDiscordHandler url_only_config"
  let ?p = "\<lparr>Username = [], AvatarURL = [], Embeds = []\<rparr>"
  let ?req = "\<lparr>Method = ''POST'', URL = ''https://discord.invalid/hook'',
      Header = Map.empty, Body = ''{}''\<rparr>"
  have m: "json_Marshal (mock_env c) ?p = Inr ''{}''" for c
    by (simp add: mock_env_def)
  have rq: "http_NewRequest (mock_env c) ''POST'' (WebhookURL (config ?h)) ''{}'' = Inr ?req" for c
    by (simp add: mock_env_def http_NewRequest_def NewDiscordHandler_def url_only_config_def)
  have rs: "client_Do (mock_env c) (Header_Set ?req ''Content-Type'' ''application/json'')
       (if Timeout (config ?h) = 0 then 5 * Second else 0)
     = Inr \<lparr>StatusCode = c, RespBody = ''body''\<rparr>" for c
    by (simp add: mock_env_def)
  have handled: "result_of (Handle (mock_env c) ?h disk_low) =
      Returns (if c \<ge> 400
        then Some (Errorf_w ''failed to send log to Discord: ''
               (Errorf_d ''discord returned non-OK status: '' c))
        else None)" for c
    by (simp add: Handle_def Let_def DefaultEmbed_def sendToDiscord_def http_NewRequest_def
        mock_env_def NewDiscordHandler_def url_only_config_def)
  from sendToDiscord_status [OF m rq rs, of 429 "[]"] sendToDiscord_status [OF m rq rs, of 204 "[]"]
  show ?thesis
    by (simp add: format_d_429 handled)
qed

subsection \<open>C3: the severity filter\<close>

text \<open>
  C3, as amended. \<^verbatim>\<open>Enabled(L)\<close> is true exactly when \<open>L\<close> is at least the effective minimum:
  the configured minimum when that is not zero, and \<^verbatim>\<open>LevelDebug\<close> (-4) when it is the zero
  value. The zero value is at once "unset" and \<^verbatim>\<open>LevelInfo\<close>. So with the minimum unset the
  levels from -4 upwards are enabled and the levels below -4 are not.
\<close>

theorem Enabled_effective_minimum:
  "fst (Enabled h lvl) =
     (lvl \<ge> (if MinLevel (config h) = 0 then LevelDebug else MinLevel (config h)))"
  by (simp add: Enabled_def Let_def)

theorem Enabled_effective_minimum_witness:
  "fst (Enabled (NewDiscordHandler (url_only_config\<lparr>MinLevel := LevelWarn\<rparr>)) LevelError)
   \<and> \<not> fst (Enabled (NewDiscordHandler (url_only_config\<lparr>MinLevel := LevelWarn\<rparr>)) LevelInfo)
   \<and> fst (Enabled (NewDiscordHandler url_only_config) LevelDebug)
   \<and> \<not> fst (Enabled (NewDiscordHandler url_only_config) (- 5))"
  using Enabled_effective_minimum [of "NewDiscordHandler (url_only_config\<lparr>MinLevel := LevelWarn\<rparr>)" LevelError]
    Enabled_effective_minimum [of "NewDiscordHandler (url_only_config\<lparr>MinLevel := LevelWarn\<rparr>)" LevelInfo]
    Enabled_effective_minimum [of "NewDiscordHandler url_only_config" LevelDebug]
    Enabled_effective_minimum [of "NewDiscordHandler url_only_config" "- 5"]
  by (simp add: NewDiscordHandler_def url_only_config_def LevelWarn_def LevelError_def
      LevelInfo_def LevelDebug_def)

text \<open>
  C3 as stated fails twice. With the minimum unset, the level -8 is not enabled. With the
  minimum set to \<^verbatim>\<open>LevelInfo\<close>, the level \<^verbatim>\<open>LevelDebug\<close> is enabled although it is below the
  configured minimum.
\<close>

theorem Enabled_minimum_counterexample:
  "MinLevel (config (NewDiscordHandler url_only_config)) = 0
   \<and> \<not> fst (Enabled (NewDiscordHandler url_only_config) (- 8))
   \<and> fst (Enabled (NewDiscordHandler (url_only_config\<lparr>MinLevel := LevelInfo\<rparr>)) LevelDebug)
   \<and> \<not> LevelDebug \<ge> MinLevel (config (NewDiscordHandler (url_only_config\<lparr>MinLevel := LevelInfo\<rparr>)))"
  by (simp add: Enabled_def Let_def NewDiscordHandler_def url_only_config_def LevelInfo_def
      LevelDebug_def)

subsection \<open>C4: a custom embed function\<close>



subsection \<open>C5: one embed per payload\<close>



subsection \<open>C6: the timeout of the request\<close>



subsection \<open>C7: attribute and group augmentation\<close>

text \<open>
  C7. After any sequence of \<^verbatim>\<open>WithAttrs\<close> and \<^verbatim>\<open>WithGroup\<close> calls, \<^verbatim>\<open>Handle\<close> on the handler
  they return does exactly what \<^verbatim>\<open>Handle\<close> on the original handler does: the same result,
  the same calls, the same payload. With the default builder the names and values of the
  fields of the embed are the keys and values of the record's own attributes, in order, so
  a key that only an augmentation call supplied is not among them.
\<close>

theorem augmentation_no_op:
  "Handle e (augment h augs) r = Handle e h r
   \<and> (CustomEmbed (config h) = None \<longrightarrow>
        (\<forall>p \<in> set (payloads (calls_of (Handle e (augment h augs) r))).
           \<forall>em \<in> set (Embeds p).
             map Name (Fields em) = map fst (Attrs r) \<and> map Value (Fields em) = map snd (Attrs r)))"
proof (intro conjI impI)
  show same: "Handle e (augment h augs) r = Handle e h r"
    by (simp add: augment_same)
  assume default: "CustomEmbed (config h) = None"
  show "\<forall>p \<in> set (payloads (calls_of (Handle e (augment h augs) r))).
           \<forall>em \<in> set (Embeds p).
             map Name (Fields em) = map fst (Attrs r) \<and> map Value (Fields em) = map snd (Attrs r)"
    unfolding same Handle_default [OF default]
    by (auto simp add: Let_def payloads_sendToDiscord dest: fields_DefaultEmbed
        split: option.splits)
qed

theorem augmentation_no_op_witness:
  "Handle (mock_env 204)
     (augment (NewDiscordHandler url_only_config)
        [Aug_Group ''request'', Aug_Attrs [(''id'', ''42''), (''user'', ''Jordan'')]]) disk_low
   = Handle (mock_env 204) (NewDiscordHandler url_only_config) disk_low
   \<and> map (\<lambda>p. map (\<lambda>em. map Name (Fields em)) (Embeds p))
        (payloads (calls_of (Handle (mock_env 204)
           (augment (NewDiscordHandler url_only_config)
              [Aug_Group ''request'', Aug_Attrs [(''id'', ''42''), (''user'', ''Jordan'')]]) disk_low)))
     = [[[''pct'']]]"
proof -
  let ?h = "NewDiscordHandler url_only_config"
  let ?augs = "[Aug_Group ''request'', Aug_Attrs [(''id'', ''42''), (''user'', ''Jordan'')]]"
  let ?run = "Handle (mock_env 204) (augment ?h ?augs) disk_low"
  have default: "CustomEmbed (config ?h) = None"
    by (simp add: NewDiscordHandler_def url_only_config_def)
  from augmentation_no_op [of "mock_env 204" ?h ?augs disk_low] default
  have same: "?run = Handle (mock_env 204) ?h disk_low"
    and names: "\<forall>p \<in> set (payloads (calls_of ?run)). \<forall>em \<in> set (Embeds p).
       map Name (Fields em) = map fst (Attrs disk_low)"
    by simp_all
  have one: "length (payloads (calls_of ?run)) = 1
      \<and> length (Embeds (hd (payloads (calls_of ?run)))) = 1"
    unfolding same
    by (simp add: Handle_def Let_def DefaultEmbed_def sendToDiscord_def http_NewRequest_def
        mock_env_def NewDiscordHandler_def url_only_config_def)
  then obtain p em where p: "payloads (calls_of ?run) = [p]" and em: "Embeds p = [em]"
    by (cases "payloads (calls_of ?run)"; cases "Embeds (hd (payloads (calls_of ?run)))") auto
  with names have "map Name (Fields em) = map fst (Attrs disk_low)"
    by simp
  with p em same show ?thesis
    by (simp add: disk_low_def)
qed

subsection \<open>C8: what the operations change in the stored configuration\<close>

text \<open>
  C8, as amended. \<^verbatim>\<open>Handle\<close>, the delivery call, \<^verbatim>\<open>WithAttrs\<close> and \<^verbatim>\<open>WithGroup\<close> leave the
  handler, and so every field of its configuration, as it was. \<^verbatim>\<open>Enabled\<close> changes at most
  the field \<^verbatim>\<open>MinLevel\<close>: a zero \<^verbatim>\<open>MinLevel\<close> becomes \<^verbatim>\<open>LevelDebug\<close>, any other value stays, and
  a second call of \<^verbatim>\<open>Enabled\<close> changes nothing more.
\<close>

theorem config_frame:
  "handler_after (Handle e h r) = h
   \<and> handler_after (sendToDiscord e h p t) = h
   \<and> WithAttrs h attrs = h
   \<and> WithGroup h name = h
   \<and> snd (Enabled h lvl) =
       h\<lparr>config := (config h)\<lparr>MinLevel :=
            (if MinLevel (config h) = 0 then LevelDebug else MinLevel (config h))\<rparr>\<rparr>
   \<and> snd (Enabled (snd (Enabled h lvl)) lvl') = snd (Enabled h lvl)"
  by (simp add: Handle_handler sendToDiscord_handler WithAttrs_def WithGroup_def
      Enabled_handler LevelDebug_def)

theorem config_frame_witness:
  "handler_after (Handle (mock_env 204) (NewDiscordHandler url_only_config) disk_low)
     = NewDiscordHandler url_only_config
   \<and> config (snd (Enabled (NewDiscordHandler url_only_config) LevelWarn))
     = url_only_config\<lparr>MinLevel := - 4\<rparr>
   \<and> snd (Enabled (NewDiscordHandler (url_only_config\<lparr>MinLevel := LevelWarn\<rparr>)) LevelInfo)
     = NewDiscordHandler (url_only_config\<lparr>MinLevel := LevelWarn\<rparr>)"
  using config_frame [of "mock_env 204" "NewDiscordHandler url_only_config" disk_low
      "\<lparr>Username = [], AvatarURL = [], Embeds = []\<rparr>" 0 "[]" "''request''" LevelWarn LevelWarn]
    config_frame [of "mock_env 204" "NewDiscordHandler (url_only_config\<lparr>MinLevel := LevelWarn\<rparr>)"
      disk_low "\<lparr>Username = [], AvatarURL = [], Embeds = []\<rparr>" 0 "[]" "''request''"
      LevelInfo LevelInfo]
  by (simp add: NewDiscordHandler_def url_only_config_def LevelWarn_def LevelDebug_def)

text \<open>
  C8 as stated fails: on a handler whose minimum is unset, one call of \<^verbatim>\<open>Enabled\<close> writes
  -4 into the stored \<^verbatim>\<open>MinLevel\<close>.
\<close>

theorem config_immutable_counterexample:
  "MinLevel (config (NewDiscordHandler url_only_config)) = 0
   \<and> MinLevel (config (snd (Enabled (NewDiscordHandler url_only_config) LevelInfo))) = - 4"
  by (simp add: Enabled_def Let_def NewDiscordHandler_def url_only_config_def LevelDebug_def)

subsection \<open>C9: the severity check gates processing\<close>




subsection \<open>C10: a nil embed\<close>

text \<open>
  C10. \<^verbatim>\<open>Handle\<close> panics on the dereference of the embed exactly when a custom embed function
  is configured and returns nil for the record and the configured color table. So a nil
  result makes \<^verbatim>\<open>Handle\<close> panic, and \<^verbatim>\<open>Handle\<close> completes only when the custom function,
  if there is one, returns an embed.
\<close>

theorem Handle_nil_embed_panics:
  "(result_of (Handle e h r) = Panics) =
     (\<exists>f. CustomEmbed (config h) = Some f \<and> f r (LevelColors (config h)) = None)"
proof (cases "CustomEmbed (config h)")
  case None
  show ?thesis
    unfolding Handle_default [OF None]
    by (simp add: Let_def DefaultEmbed_def None)
next
  case (Some f)
  show ?thesis
    unfolding Handle_custom [OF Some]
    by (simp add: Let_def Some split: option.splits)
qed

theorem Handle_nil_embed_panics_witness:
  "result_of (Handle (mock_env 204)
       (NewDiscordHandler (url_only_config\<lparr>CustomEmbed := Some nil_embed\<rparr>)) disk_low) = Panics
   \<and> result_of (Handle (mock_env 204)
       (NewDiscordHandler (url_only_config\<lparr>CustomEmbed := Some footer_embed\<rparr>)) disk_low) \<noteq> Panics
   \<and> result_of (Handle (mock_env 204) (NewDiscordHandler url_only_config) disk_low) \<noteq> Panics"
  using Handle_nil_embed_panics [of "mock_env 204"
      "NewDiscordHandler (url_only_config\<lparr>CustomEmbed := Some nil_embed\<rparr>)" disk_low]
    Handle_nil_embed_panics [of "mock_env 204"
      "NewDiscordHandler (url_only_config\<lparr>CustomEmbed := Some footer_embed\<rparr>)" disk_low]
    Handle_nil_embed_panics [of "mock_env 204" "NewDiscordHandler url_only_config" disk_low]
  by (simp add: NewDiscordHandler_def url_only_config_def nil_embed_def footer_embed_def)

end
